theory Spec2Isabelle
  imports Complex_Main "HOL-Library.AList" "HOL-Library.Multiset" "HOL-Library.Product_Lexorder"
begin

section \<open>Python values, exceptions and the HTTP collaborator\<close>

text \<open>
  \<open>app.py\<close> talks to Adafruit IO through the \<open>requests\<close> library. A decoded JSON body is
  a value of \<open>json\<close>; a JSON object is an association list with distinct keys (a Python
  dict). Strings are \<open>char list\<close>, one element for each character.
\<close>

datatype json =
    JNull
  | JBool bool
  | JNum rat
  | JStr string
  | JArr "json list"
  | JObj "(string \<times> json) list"

text \<open>
  The exceptions the code meets. Only \<open>RequestException\<close> (with its subclasses HTTPError,
  Timeout, ConnectionError and, from requests 2.27 on, JSONDecodeError) is caught by the
  handlers of \<open>fetch_live_data\<close> and \<open>send_control_command\<close>; only \<open>PsycopgError\<close>
  (\<open>psycopg2.Error\<close>) by the database helpers. The argument is \<open>str(e)\<close>.
\<close>

datatype py_exn =
    RequestException string
  | PsycopgError string
  | AttributeError string
  | TypeError string

text \<open>
  What one call of \<open>requests.get\<close> or \<open>requests.post\<close> does: it raises before any response
  arrives (timeout, refused connection, ...), or it returns a response with a status code
  and a body; the body is \<open>None\<close> when it is not JSON text.

  \<open>http_env\<close> holds what \<open>app.py\<close> takes from outside: the account name, the replies of
  the feed service, the texts of the library's exceptions, and \<open>str_upper\<close>, Python's
  \<open>str.upper\<close>, whose Unicode case tables belong to the interpreter.
\<close>

datatype http_reply =
    Refused string
  | Response nat "json option"

datatype http_call =
    GET string
  | POST string json

record http_env =
  AIO_USERNAME :: string
  requests_get :: "string \<Rightarrow> http_reply"
  requests_post :: "string \<Rightarrow> json \<Rightarrow> http_reply"
  http_error_str :: "nat \<Rightarrow> string \<Rightarrow> string"
  json_error_str :: string
  str_upper :: "string \<Rightarrow> string"

definition FEEDS :: "string \<rightharpoonup> string" where
  "FEEDS = map_of
     [(''temperature'', ''home/temperature''),
      (''humidity'', ''home/humidity''),
      (''motion'', ''home/motion''),
      (''ctrl_light'', ''home/control/light''),
      (''ctrl_lcd_text'', ''home/control/lcd_message''),
      (''ctrl_mode'', ''home/control/mode''),
      (''last_image'', ''home/last_image_ts'')]"

definition DB_SENSOR_MAP :: "string \<rightharpoonup> string" where
  "DB_SENSOR_MAP = map_of
     [(''temperature'', ''temp_c''),
      (''humidity'', ''humidity_pct'')]"

text \<open>\<open>response.raise_for_status()\<close>: an HTTPError for a 4xx or 5xx status, nothing otherwise.\<close>

definition raise_for_status :: "http_env \<Rightarrow> string \<Rightarrow> nat \<Rightarrow> py_exn + unit" where
  "raise_for_status env url status =
     (if 400 \<le> status \<and> status < 600
      then Inl (RequestException (http_error_str env status url))
      else Inr ())"

text \<open>\<open>response.json()\<close>: the decoded body, or a JSONDecodeError.\<close>

definition response_json :: "http_env \<Rightarrow> json option \<Rightarrow> py_exn + json" where
  "response_json env body =
     (case body of
        None \<Rightarrow> Inl (RequestException (json_error_str env))
      | Some j \<Rightarrow> Inr j)"

text \<open>\<open>j.get(key, default)\<close>: only a dict has the method.\<close>

fun dict_get :: "json \<Rightarrow> string \<Rightarrow> json \<Rightarrow> py_exn + json" where
  "dict_get (JObj kvs) key dflt =
     Inr (case map_of kvs key of None \<Rightarrow> dflt | Some v \<Rightarrow> v)"
| "dict_get j key dflt = Inl (AttributeError ''object has no attribute get'')"

section \<open>Adafruit IO interactions\<close>

definition live_url :: "http_env \<Rightarrow> string \<Rightarrow> string" where
  "live_url env feed_name =
     ''https://io.adafruit.com/api/v2/'' @ AIO_USERNAME env @ ''/feeds/'' @ feed_name @ ''/data/last''"

definition data_url :: "http_env \<Rightarrow> string \<Rightarrow> string" where
  "data_url env feed_name =
     ''https://io.adafruit.com/api/v2/'' @ AIO_USERNAME env @ ''/feeds/'' @ feed_name @ ''/data''"

text \<open>The body of the \<open>try\<close> of \<open>fetch_live_data\<close> (lines 52 to 54).\<close>

definition live_value :: "http_env \<Rightarrow> string \<Rightarrow> py_exn + json" where
  "live_value env url =
     (case requests_get env url of
        Refused e \<Rightarrow> Inl (RequestException e)
      | Response status body \<Rightarrow>
          (case raise_for_status env url status of
             Inl e \<Rightarrow> Inl e
           | Inr _ \<Rightarrow>
               (case response_json env body of
                  Inl e \<Rightarrow> Inl e
                | Inr j \<Rightarrow> dict_get j ''value'' (JStr ''N/A''))))"

text \<open>
  The \<open>for\<close> loop of \<open>fetch_live_data\<close>, over the keys still to visit, with the dict
  \<open>data\<close> built so far and the list of the requests sent. \<open>fetch_live_data\<close> starts it
  on the three keys of line 45, all of them in \<open>FEEDS\<close>. \<open>not feed_name\<close> holds for a
  missing key and for an empty name.
  An exception that is not a \<open>RequestException\<close> leaves the loop and the function.
\<close>

fun fetch_live_loop ::
  "http_env \<Rightarrow> string list \<Rightarrow> (string \<times> json) list \<Rightarrow> http_call list
     \<Rightarrow> (py_exn + (string \<times> json) list) \<times> http_call list" where
  "fetch_live_loop env [] data sent = (Inr data, sent)"
| "fetch_live_loop env (feed_key # rest) data sent =
     (case FEEDS feed_key of
        None \<Rightarrow> fetch_live_loop env rest data sent
      | Some feed_name \<Rightarrow>
          if feed_name = [] then fetch_live_loop env rest data sent
          else
            (let url = live_url env feed_name;
                 sent' = sent @ [GET url]
             in case live_value env url of
                  Inr v \<Rightarrow>
                    fetch_live_loop env rest (AList.update feed_key v data) sent'
                | Inl (RequestException e) \<Rightarrow>
                    fetch_live_loop env rest
                      (AList.update feed_key (JStr ''Error'') data) sent'
                | Inl other \<Rightarrow> (Inl other, sent')))"

definition monitored_keys :: "string list" where
  "monitored_keys = [''temperature'', ''humidity'', ''motion'']"

definition fetch_live_data ::
  "http_env \<Rightarrow> (py_exn + (string \<times> json) list) \<times> http_call list" where
  "fetch_live_data env = fetch_live_loop env monitored_keys [] []"

text \<open>
  \<open>send_control_command\<close>: the result pair and the list of the requests sent. The
  \<open>try\<close> holds \<open>requests.post\<close> and \<open>raise_for_status\<close>, which raise only
  \<open>RequestException\<close>s; the handler turns them into \<open>(False, "Error: ...")\<close>.
\<close>

definition post_attempt :: "http_env \<Rightarrow> string \<Rightarrow> json \<Rightarrow> py_exn + unit" where
  "post_attempt env url payload =
     (case requests_post env url payload of
        Refused e \<Rightarrow> Inl (RequestException e)
      | Response status body \<Rightarrow> raise_for_status env url status)"

fun exn_str :: "py_exn \<Rightarrow> string" where
  "exn_str (RequestException e) = e"
| "exn_str (PsycopgError e) = e"
| "exn_str (AttributeError e) = e"
| "exn_str (TypeError e) = e"

definition send_control_command ::
  "http_env \<Rightarrow> string \<Rightarrow> string \<Rightarrow> http_call list \<Rightarrow> (bool \<times> string) \<times> http_call list" where
  "send_control_command env feed_key val sent =
     (case FEEDS feed_key of
        None \<Rightarrow> ((False, ''Invalid feed key''), sent)
      | Some feed_name \<Rightarrow>
          if feed_name = [] then ((False, ''Invalid feed key''), sent)
          else
            (let url = data_url env feed_name;
                 payload = JObj [(''value'', JStr val)];
                 sent' = sent @ [POST url payload]
             in case post_attempt env url payload of
                  Inr _ \<Rightarrow> ((True, ''Success''), sent')
                | Inl e \<Rightarrow> ((False, ''Error: '' @ exn_str e), sent')))"

section \<open>String helpers\<close>

definition ascii_uppercase :: string where
  "ascii_uppercase = ''ABCDEFGHIJKLMNOPQRSTUVWXYZ''"

definition ascii_lowercase :: string where
  "ascii_lowercase = ''abcdefghijklmnopqrstuvwxyz''"

definition lower_char :: "char \<Rightarrow> char" where
  "lower_char c =
     (case map_of (zip ascii_uppercase ascii_lowercase) c of None \<Rightarrow> c | Some d \<Rightarrow> d)"

definition upper_char :: "char \<Rightarrow> char" where
  "upper_char c =
     (case map_of (zip ascii_lowercase ascii_uppercase) c of None \<Rightarrow> c | Some d \<Rightarrow> d)"

definition py_lower :: "string \<Rightarrow> string" where
  "py_lower s = map lower_char s"

text \<open>
  \<open>lower_char\<close> and \<open>upper_char\<close> convert the ASCII letters. \<open>py_lower\<close> stands for
  \<open>str.lower\<close> in the test \<open>value.lower() == 'on'\<close>: no character outside ASCII has
  \<open>o\<close> or \<open>n\<close> as its lower case. \<open>py_capitalize\<close> is applied to the three device
  names and the two sensor names only, which are ASCII. \<open>ascii_upper\<close> is \<open>str.upper\<close> on
  ASCII text; the example environments use it.
\<close>

definition ascii_upper :: "string \<Rightarrow> string" where
  "ascii_upper s = map upper_char s"

text \<open>\<open>s.capitalize()\<close>: the first character upper-cased, the rest lower-cased.\<close>

fun py_capitalize :: "string \<Rightarrow> string" where
  "py_capitalize [] = []"
| "py_capitalize (c # cs) = upper_char c # map lower_char cs"

text \<open>\<open>s.replace('_', ' ')\<close>.\<close>

definition replace_underscore :: "string \<Rightarrow> string" where
  "replace_underscore s = map (\<lambda>c. if c = CHR ''_'' then CHR '' '' else c) s"

section \<open>The control API\<close>

record api_response =
  resp_success :: bool
  resp_message :: string
  resp_status :: nat

definition feed_key_map :: "string \<rightharpoonup> string" where
  "feed_key_map = map_of
     [(''light'', ''ctrl_light''),
      (''lcd_text'', ''ctrl_lcd_text''),
      (''mode'', ''ctrl_mode'')]"

definition MAX_LENGTH :: nat where
  "MAX_LENGTH = 32"

text \<open>Lines 283 to 288: the dispatch and the response built from its result.\<close>

definition dispatch ::
  "http_env \<Rightarrow> string \<Rightarrow> string \<Rightarrow> string \<Rightarrow> http_call list \<Rightarrow> api_response \<times> http_call list" where
  "dispatch env device feed_key control_value sent =
     (case send_control_command env feed_key control_value sent of
        ((success, msg), sent') \<Rightarrow>
          if success
          then (\<lparr>resp_success = True,
                 resp_message =
                   (if device = ''lcd_text''
                    then py_capitalize (replace_underscore device) @ '' set to '' @ [CHR 0x27]
                           @ control_value @ [CHR 0x27]
                    else py_capitalize device @ '' set to '' @ control_value),
                 resp_status = 200\<rparr>, sent')
          else (\<lparr>resp_success = False,
                 resp_message = ''Failed to control '' @ device @ '': '' @ msg,
                 resp_status = 500\<rparr>, sent'))"

definition control_device_api ::
  "http_env \<Rightarrow> string \<Rightarrow> string \<Rightarrow> http_call list \<Rightarrow> api_response \<times> http_call list" where
  "control_device_api env device val sent =
     (case feed_key_map device of
        None \<Rightarrow>
          (\<lparr>resp_success = False, resp_message = ''Invalid device'', resp_status = 400\<rparr>, sent)
      | Some feed_key \<Rightarrow>
          if feed_key = [] then
            (\<lparr>resp_success = False, resp_message = ''Invalid device'', resp_status = 400\<rparr>, sent)
          else if device = ''lcd_text'' then
            (if length val > MAX_LENGTH
             then (\<lparr>resp_success = False,
                    resp_message = ''Text must be 32 characters or less.'',
                    resp_status = 400\<rparr>, sent)
             else dispatch env device feed_key val sent)
          else if device = ''mode'' then
            dispatch env device feed_key
              (if py_lower val = ''on'' then ''ARMED'' else ''DISARMED'') sent
          else
            dispatch env device feed_key (str_upper env val) sent)"

text \<open>The payloads that a list of requests posts to the data URL of a feed key.\<close>

definition posted_to :: "http_env \<Rightarrow> string \<Rightarrow> http_call list \<Rightarrow> json list" where
  "posted_to env feed_key calls =
     concat (map (\<lambda>c. case c of
                     GET u \<Rightarrow> []
                   | POST u p \<Rightarrow>
                       (case FEEDS feed_key of
                          None \<Rightarrow> []
                        | Some feed_name \<Rightarrow> if u = data_url env feed_name then [p] else []))
                 calls)"

definition value_payload :: "string \<Rightarrow> json" where
  "value_payload v = JObj [(''value'', JStr v)]"

section \<open>The Neon database collaborator\<close>

text \<open>
  A \<open>datetime\<close> as psycopg2 returns it for a timestamp column (year 1 to 9999, month 1 to
  12, and so on). \<open>dt_key\<close> is the order of \<open>ORDER BY ts_iso\<close>; \<open>DATE\<close> is the SQL
  function of that name.
\<close>

record datetime =
  year :: nat
  month :: nat
  day :: nat
  hour :: nat
  minute :: nat
  second :: nat
  microsecond :: nat

type_synonym date = "nat \<times> nat \<times> nat"

definition dt_key :: "datetime \<Rightarrow> nat \<times> nat \<times> nat \<times> nat \<times> nat \<times> nat \<times> nat" where
  "dt_key t = (year t, month t, day t, hour t, minute t, second t, microsecond t)"

definition DATE :: "datetime \<Rightarrow> date" where
  "DATE t = (year t, month t, day t)"

definition digit :: "nat \<Rightarrow> char" where
  "digit d = ''0123456789'' ! (d mod 10)"

definition pad2 :: "nat \<Rightarrow> string" where
  "pad2 n = [digit (n div 10), digit n]"

definition pad4 :: "nat \<Rightarrow> string" where
  "pad4 n = [digit (n div 1000), digit (n div 100), digit (n div 10), digit n]"

text \<open>\<open>ts.strftime('%H:%M')\<close> and \<open>ts.strftime('%Y-%m-%d %H:%M:%S')\<close>.\<close>

definition strftime_HM :: "datetime \<Rightarrow> string" where
  "strftime_HM t = pad2 (hour t) @ '':'' @ pad2 (minute t)"

definition strftime_full :: "datetime \<Rightarrow> string" where
  "strftime_full t =
     pad4 (year t) @ ''-'' @ pad2 (month t) @ ''-'' @ pad2 (day t) @ '' ''
       @ pad2 (hour t) @ '':'' @ pad2 (minute t) @ '':'' @ pad2 (second t)"

text \<open>
  The motion column holds a boolean or an integer (or NULL). A row of \<open>sensor_data\<close>
  holds the columns that the two queries read; \<open>'v\<close> is the type of a stored reading.
\<close>

datatype motion_flag = MotionNull | MotionBool bool | MotionInt int

text \<open>
  The declared type of the motion column, a boolean or an integer flag. PostgreSQL has an
  operator \<open>=\<close> for two booleans and for two integers, and none for a boolean and an
  integer, whichever side the boolean is on.
\<close>

datatype sql_type = SqlBoolean | SqlInteger

fun sql_type_name :: "sql_type \<Rightarrow> string" where
  "sql_type_name SqlBoolean = ''boolean''"
| "sql_type_name SqlInteger = ''integer''"

definition eq_operator_exists :: "sql_type \<Rightarrow> sql_type \<Rightarrow> bool" where
  "eq_operator_exists a b = (a = b)"

record 'v sensor_row =
  ts_iso :: datetime
  temp_c :: 'v
  humidity_pct :: 'v
  motion :: motion_flag
  image_path :: "string option"

text \<open>
  What the database does during one call: \<open>psycopg2.connect\<close>, \<open>conn.cursor()\<close> and
  \<open>cursor.execute\<close> each either raise a \<open>psycopg2.Error\<close> (\<open>Some\<close> of its text) or succeed,
  \<open>execute_error\<close> being a failure that does not come from the text of the query (a lost
  connection, a date that PostgreSQL cannot read); \<open>sensor_data\<close> is the content of the
  table and \<open>motion_type\<close> the declared type of its motion column; \<open>tie_order\<close> is the
  place PostgreSQL gives a row among rows with the same timestamp, which \<open>ORDER BY\<close>
  leaves open; \<open>py_float\<close> is Python's \<open>float()\<close> on a stored reading (a TypeError for
  NULL), with \<open>'f\<close> the type of Python floats.
\<close>

record ('v, 'f) db_env =
  connect_error :: "string option"
  cursor_error :: "string option"
  execute_error :: "string option"
  sensor_data :: "'v sensor_row list"
  motion_type :: sql_type
  tie_order :: "'v sensor_row \<Rightarrow> nat"
  py_float :: "'v \<Rightarrow> py_exn + 'f"

text \<open>The trace of a call: connection attempts, connections opened and closed, queries run.\<close>

record db_trace =
  connect_attempts :: nat
  conns_opened :: nat
  conns_closed :: nat
  queries_run :: nat

definition connect_to_neon :: "('v, 'f) db_env \<Rightarrow> db_trace \<Rightarrow> unit option \<times> db_trace" where
  "connect_to_neon env tr =
     (case connect_error env of
        Some e \<Rightarrow> (None, tr\<lparr>connect_attempts := connect_attempts tr + 1\<rparr>)
      | None \<Rightarrow>
          (Some (), tr\<lparr>connect_attempts := connect_attempts tr + 1,
                       conns_opened := conns_opened tr + 1\<rparr>))"

definition conn_close :: "db_trace \<Rightarrow> db_trace" where
  "conn_close tr = tr\<lparr>conns_closed := conns_closed tr + 1\<rparr>"

definition cursor_execute :: "('v, 'f) db_env \<Rightarrow> db_trace \<Rightarrow> (py_exn + unit) \<times> db_trace" where
  "cursor_execute env tr =
     (case execute_error env of
        Some e \<Rightarrow> (Inl (PsycopgError e), tr\<lparr>queries_run := queries_run tr + 1\<rparr>)
      | None \<Rightarrow> (Inr (), tr\<lparr>queries_run := queries_run tr + 1\<rparr>))"

section \<open>Historical data\<close>

definition column :: "string \<Rightarrow> 'v sensor_row \<Rightarrow> 'v" where
  "column db_column r = (if db_column = ''temp_c'' then temp_c r else humidity_pct r)"

text \<open>
  \<open>SELECT ts_iso, {db_column} FROM sensor_data WHERE DATE(ts_iso) = %s ORDER BY ts_iso\<close>,
  as \<open>fetchall\<close> returns it.
\<close>

definition history_query ::
  "'v sensor_row list \<Rightarrow> ('v sensor_row \<Rightarrow> nat) \<Rightarrow> string \<Rightarrow> date \<Rightarrow> (datetime \<times> 'v) list" where
  "history_query table tie db_column d =
     map (\<lambda>r. (ts_iso r, column db_column r))
       (sort_key (\<lambda>r. (dt_key (ts_iso r), tie r)) (filter (\<lambda>r. DATE (ts_iso r) = d) table))"

text \<open>\<open>[float(row[1]) for row in results]\<close>: the first failing conversion raises.\<close>

fun float_all :: "('v \<Rightarrow> py_exn + 'f) \<Rightarrow> 'v list \<Rightarrow> py_exn + 'f list" where
  "float_all f [] = Inr []"
| "float_all f (x # xs) =
     (case f x of
        Inl e \<Rightarrow> Inl e
      | Inr y \<Rightarrow> (case float_all f xs of Inl e \<Rightarrow> Inl e | Inr ys \<Rightarrow> Inr (y # ys)))"

record 'f dataset =
  ds_label :: string
  ds_data :: "'f list"
  borderColor :: string
  tension :: rat

record 'f chart_data =
  labels :: "string list"
  datasets :: "'f dataset list"

text \<open>
  The body of the \<open>try\<close> of \<open>fetch_historical_data\<close> (lines 97 to 128): \<open>Inl\<close> is an
  exception raised there, \<open>Inr\<close> the pair \<open>(data, error)\<close> with which the function goes on
  to return (the \<open>return\<close> of line 101, or the end of the block).
\<close>

definition historical_try ::
  "('v, 'f) db_env \<Rightarrow> date \<Rightarrow> string \<Rightarrow> db_trace
     \<Rightarrow> (py_exn + ('f chart_data option \<times> string option)) \<times> db_trace" where
  "historical_try env d sensor tr =
     (case cursor_error env of
        Some e \<Rightarrow> (Inl (PsycopgError e), tr)
      | None \<Rightarrow>
          (case DB_SENSOR_MAP sensor of
             None \<Rightarrow> (Inr (None, Some ''Invalid sensor requested.''), tr)
           | Some db_column \<Rightarrow>
               (case cursor_execute env tr of
                  (Inl e, tr') \<Rightarrow> (Inl e, tr')
                | (Inr _, tr') \<Rightarrow>
                    (let results =
                           history_query (sensor_data env) (tie_order env) db_column d;
                         labels = map (\<lambda>row. strftime_HM (fst row)) results
                     in case float_all (py_float env) (map snd results) of
                          Inl e \<Rightarrow> (Inl e, tr')
                        | Inr values \<Rightarrow>
                            (Inr (Some \<lparr>labels = labels,
                                         datasets =
                                           [\<lparr>ds_label = py_capitalize sensor,
                                             ds_data = values,
                                             borderColor = ''#3498db'',
                                             tension = 3 / 10\<rparr>]\<rparr>,
                                  None), tr')))))"

text \<open>
  \<open>fetch_historical_data\<close>: \<open>Inl\<close> is an exception that leaves the function (anything
  but a \<open>psycopg2.Error\<close>), \<open>Inr\<close> the returned pair. The \<open>finally\<close> closes the connection
  on every way out of the \<open>try\<close>.
\<close>

definition fetch_historical_data ::
  "('v, 'f) db_env \<Rightarrow> date \<Rightarrow> string \<Rightarrow> db_trace
     \<Rightarrow> (py_exn + ('f chart_data option \<times> string option)) \<times> db_trace" where
  "fetch_historical_data env d sensor tr =
     (case connect_to_neon env tr of
        (None, tr1) \<Rightarrow> (Inr (None, Some ''Failed to connect to the cloud database.''), tr1)
      | (Some conn, tr1) \<Rightarrow>
          (case historical_try env d sensor tr1 of
             (Inr r, tr2) \<Rightarrow> (Inr r, conn_close tr2)
           | (Inl (PsycopgError e), tr2) \<Rightarrow>
               (Inr (None, Some (''Database Query Error: '' @ e)), conn_close tr2)
           | (Inl other, tr2) \<Rightarrow> (Inl other, conn_close tr2)))"

section \<open>Intrusion logs\<close>

definition motion_truthy :: "motion_flag \<Rightarrow> bool" where
  "motion_truthy m = (m = MotionBool True \<or> m = MotionInt 1)"

text \<open>
  \<open>SELECT ts_iso, image_path FROM sensor_data WHERE DATE(ts_iso) = %s AND (motion = TRUE
  OR motion = 1) AND image_path IS NOT NULL ORDER BY ts_iso DESC\<close>.

  PostgreSQL types the statement before it reads a row. \<open>motion = TRUE\<close> needs an
  operator \<open>=\<close> for the type of the column and boolean, \<open>motion = 1\<close> one for the type of
  the column and integer; \<open>where_clause_error\<close> is the error for the first comparison that
  has none. \<open>intrusion_query\<close> is what the statement selects when it is accepted.
\<close>

definition where_clause_error :: "sql_type \<Rightarrow> string option" where
  "where_clause_error t =
     (if \<not> eq_operator_exists t SqlBoolean
      then Some (''operator does not exist: '' @ sql_type_name t @ '' = boolean'')
      else if \<not> eq_operator_exists t SqlInteger
      then Some (''operator does not exist: '' @ sql_type_name t @ '' = integer'')
      else None)"

definition intrusion_query ::
  "'v sensor_row list \<Rightarrow> ('v sensor_row \<Rightarrow> nat) \<Rightarrow> date \<Rightarrow> (datetime \<times> string option) list" where
  "intrusion_query table tie d =
     map (\<lambda>r. (ts_iso r, image_path r))
       (rev (sort_key (\<lambda>r. (dt_key (ts_iso r), tie r))
          (filter (\<lambda>r. DATE (ts_iso r) = d \<and> motion_truthy (motion r) \<and> image_path r \<noteq> None)
             table)))"

record log_entry =
  log_timestamp :: string
  log_image_path :: string

text \<open>\<open>path or "No image recorded"\<close>: \<open>None\<close> and the empty string are falsy.\<close>

definition path_or_placeholder :: "string option \<Rightarrow> string" where
  "path_or_placeholder path =
     (case path of
        None \<Rightarrow> ''No image recorded''
      | Some p \<Rightarrow> if p = [] then ''No image recorded'' else p)"

definition log_entry_of :: "datetime \<times> string option \<Rightarrow> log_entry" where
  "log_entry_of row =
     \<lparr>log_timestamp = strftime_full (fst row),
      log_image_path = path_or_placeholder (snd row)\<rparr>"

definition intrusion_try ::
  "('v, 'f) db_env \<Rightarrow> date \<Rightarrow> db_trace \<Rightarrow> (py_exn + log_entry list) \<times> db_trace" where
  "intrusion_try env d tr =
     (case cursor_error env of
        Some e \<Rightarrow> (Inl (PsycopgError e), tr)
      | None \<Rightarrow>
          (case cursor_execute env tr of
             (Inl e, tr') \<Rightarrow> (Inl e, tr')
           | (Inr _, tr') \<Rightarrow>
               (case where_clause_error (motion_type env) of
                  Some e \<Rightarrow> (Inl (PsycopgError e), tr')
                | None \<Rightarrow>
                    (Inr (map log_entry_of
                            (intrusion_query (sensor_data env) (tie_order env) d)), tr'))))"

definition fetch_intrusion_logs ::
  "('v, 'f) db_env \<Rightarrow> date \<Rightarrow> db_trace
     \<Rightarrow> (py_exn + (log_entry list \<times> string option)) \<times> db_trace" where
  "fetch_intrusion_logs env d tr =
     (case connect_to_neon env tr of
        (None, tr1) \<Rightarrow> (Inr ([], Some ''Failed to connect to the cloud database.''), tr1)
      | (Some conn, tr1) \<Rightarrow>
          (case intrusion_try env d tr1 of
             (Inr logs, tr2) \<Rightarrow> (Inr (logs, None), conn_close tr2)
           | (Inl (PsycopgError e), tr2) \<Rightarrow>
               (Inr ([], Some (''Database Query Error: '' @ e)), conn_close tr2)
           | (Inl other, tr2) \<Rightarrow> (Inl other, conn_close tr2)))"

section \<open>The security page\<close>

text \<open>
  The part of \<open>manage_security\<close> that acts (lines 221 to 235), for a request with the
  given method and form fields (an absent or empty \<open>log_date\<close> is \<open>None\<close>); the page is
  rendered from the four values returned, \<open>intrusion_logs\<close> being \<open>[]\<close> where the code
  leaves it \<open>None\<close> (lines 237 and 238).
\<close>

record security_page =
  status_msg :: "string option"
  intrusion_logs :: "log_entry list"
  log_error :: "string option"
  selected_log_date :: "date option"

definition blank_page :: security_page where
  "blank_page =
     \<lparr>status_msg = None, intrusion_logs = [], log_error = None, selected_log_date = None\<rparr>"

definition manage_security ::
  "http_env \<Rightarrow> ('v, 'f) db_env \<Rightarrow> string \<Rightarrow> string option \<Rightarrow> date option
     \<Rightarrow> http_call list \<Rightarrow> db_trace
     \<Rightarrow> (py_exn + security_page) \<times> http_call list \<times> db_trace" where
  "manage_security env db method action log_date sent tr =
     (if method = ''POST'' then
        (if action = Some ''arm'' then
           (case send_control_command env ''ctrl_mode'' ''ARMED'' sent of
              ((success, msg), sent') \<Rightarrow>
                (Inr (blank_page\<lparr>status_msg := Some (''Security System: ''
                         @ (if success then ''ARMED'' else ''Failed to Arm'')
                         @ ''. Message: '' @ msg)\<rparr>), sent', tr))
         else if action = Some ''disarm'' then
           (case send_control_command env ''ctrl_mode'' ''DISARMED'' sent of
              ((success, msg), sent') \<Rightarrow>
                (Inr (blank_page\<lparr>status_msg := Some (''Security System: ''
                         @ (if success then ''DISARMED'' else ''Failed to Disarm'')
                         @ ''. Message: '' @ msg)\<rparr>), sent', tr))
         else if action = Some ''get_logs'' then
           (case log_date of
              Some d \<Rightarrow>
                (case fetch_intrusion_logs db d tr of
                   (Inl e, tr') \<Rightarrow> (Inl e, sent, tr')
                 | (Inr (logs, err), tr') \<Rightarrow>
                     (Inr (blank_page\<lparr>intrusion_logs := logs, log_error := err,
                                       selected_log_date := Some d\<rparr>), sent, tr'))
            | None \<Rightarrow>
                (Inr (blank_page\<lparr>log_error := Some ''Please select a date to fetch logs.''\<rparr>),
                 sent, tr))
         else (Inr blank_page, sent, tr))
      else (Inr blank_page, sent, tr))"

section \<open>Example environments\<close>

text \<open>A feed service that answers every request with status 200 and a reading.\<close>

definition env_ok :: http_env where
  "env_ok =
     \<lparr>AIO_USERNAME = ''demo'',
      requests_get = (\<lambda>url. Response 200 (Some (JObj [(''value'', JStr ''21.5'')]))),
      requests_post = (\<lambda>url payload. Response 200 (Some (JObj []))),
      http_error_str = (\<lambda>status url. ''HTTP error for url: '' @ url),
      json_error_str = ''Expecting value'',
      str_upper = ascii_upper\<rparr>"

text \<open>The same service, except that the humidity feed answers with the JSON array \<open>[]\<close>.\<close>

definition env_array_body :: http_env where
  "env_array_body =
     env_ok\<lparr>requests_get :=
       (\<lambda>url. if url = live_url env_ok ''home/humidity''
              then Response 200 (Some (JArr []))
              else requests_get env_ok url)\<rparr>"

text \<open>
  A service where the temperature feed times out, the humidity feed answers 503 and the
  motion feed answers with an object that has no \<open>value\<close> field.
\<close>

definition env_flaky :: http_env where
  "env_flaky =
     env_ok\<lparr>requests_get :=
       (\<lambda>url. if url = live_url env_ok ''home/temperature'' then Refused ''Read timed out''
              else if url = live_url env_ok ''home/humidity'' then Response 503 None
              else Response 200 (Some (JObj [(''id'', JStr ''0F'')])))\<rparr>"

text \<open>
  A service that refuses every POST, one that answers every POST with 404, and one that
  answers every POST with 304.
\<close>

definition env_post_refused :: http_env where
  "env_post_refused = env_ok\<lparr>requests_post := (\<lambda>url payload. Refused ''Read timed out'')\<rparr>"

definition env_post_404 :: http_env where
  "env_post_404 = env_ok\<lparr>requests_post := (\<lambda>url payload. Response 404 None)\<rparr>"

definition env_post_304 :: http_env where
  "env_post_304 = env_ok\<lparr>requests_post := (\<lambda>url payload. Response 304 None)\<rparr>"

text \<open>
  A table with five rows and a boolean motion column; four rows are of 1 May 2024, two
  of them with motion and an image path.
\<close>

definition mk_time :: "nat \<Rightarrow> nat \<Rightarrow> nat \<Rightarrow> nat \<Rightarrow> nat \<Rightarrow> nat \<Rightarrow> datetime" where
  "mk_time y mo d h mi s =
     \<lparr>year = y, month = mo, day = d, hour = h, minute = mi, second = s, microsecond = 0\<rparr>"

definition example_table :: "rat option sensor_row list" where
  "example_table =
     [\<lparr>ts_iso = mk_time 2024 5 1 9 5 7, temp_c = Some (43 / 2), humidity_pct = Some 40,
       motion = MotionBool True, image_path = Some ''img/a.jpg''\<rparr>,
      \<lparr>ts_iso = mk_time 2024 5 1 8 30 0, temp_c = Some 20, humidity_pct = Some 41,
       motion = MotionBool False, image_path = None\<rparr>,
      \<lparr>ts_iso = mk_time 2024 5 1 17 45 30, temp_c = Some 22, humidity_pct = Some 39,
       motion = MotionBool True, image_path = Some ''img/b.jpg''\<rparr>,
      \<lparr>ts_iso = mk_time 2024 5 2 0 0 10, temp_c = Some 19, humidity_pct = None,
       motion = MotionBool True, image_path = Some ''img/c.jpg''\<rparr>,
      \<lparr>ts_iso = mk_time 2024 5 1 23 59 59, temp_c = Some 18, humidity_pct = Some 44,
       motion = MotionBool False, image_path = None\<rparr>]"

text \<open>A table with an integer motion column and one row, of 1 May 2024, with motion.\<close>

definition integer_table :: "rat option sensor_row list" where
  "integer_table =
     [\<lparr>ts_iso = mk_time 2024 5 1 9 5 7, temp_c = Some (43 / 2), humidity_pct = Some 40,
       motion = MotionInt 1, image_path = Some ''img/a.jpg''\<rparr>]"

definition float_of_reading :: "rat option \<Rightarrow> py_exn + rat" where
  "float_of_reading v =
     (case v of
        None \<Rightarrow> Inl (TypeError ''float() argument must be a string or a real number'')
      | Some q \<Rightarrow> Inr q)"

definition db_example :: "(rat option, rat) db_env" where
  "db_example =
     \<lparr>connect_error = None, cursor_error = None, execute_error = None,
      sensor_data = example_table, motion_type = SqlBoolean, tie_order = (\<lambda>r. 0),
      py_float = float_of_reading\<rparr>"

definition db_integer :: "(rat option, rat) db_env" where
  "db_integer = db_example\<lparr>sensor_data := integer_table, motion_type := SqlInteger\<rparr>"

definition trace0 :: db_trace where
  "trace0 = \<lparr>connect_attempts = 0, conns_opened = 0, conns_closed = 0, queries_run = 0\<rparr>"

text \<open>An unreachable database.\<close>

definition db_down :: "(rat option, rat) db_env" where
  "db_down = db_example\<lparr>connect_error := Some ''connection refused''\<rparr>"

text \<open>
  The entry that \<open>fetch_live_data\<close> is meant to store for a reply: the sentinel
  \<open>"Error"\<close> for a failed request, a 4xx or 5xx status or a body that is not JSON, the
  \<open>value\<close> field of a JSON object, the sentinel \<open>"N/A"\<close> for an object without one.
\<close>

definition expected_entry :: "http_reply \<Rightarrow> json" where
  "expected_entry reply =
     (case reply of
        Refused e \<Rightarrow> JStr ''Error''
      | Response status body \<Rightarrow>
          if 400 \<le> status \<and> status < 600 then JStr ''Error''
          else (case body of
                  None \<Rightarrow> JStr ''Error''
                | Some (JObj kvs) \<Rightarrow>
                    (case map_of kvs ''value'' of None \<Rightarrow> JStr ''N/A'' | Some v \<Rightarrow> v)
                | Some other \<Rightarrow> JStr ''N/A''))"

text \<open>Every body that decodes is a JSON object.\<close>

definition object_bodies :: "http_env \<Rightarrow> bool" where
  "object_bodies env =
     (\<forall>url status j. requests_get env url = Response status (Some j) \<longrightarrow> (\<exists>kvs. j = JObj kvs))"


section \<open>Facts about the registry and the strings\<close>

lemma FEEDS_nonempty: "FEEDS k = Some n \<Longrightarrow> n \<noteq> []"
  by (auto simp: FEEDS_def split: if_splits)

lemma data_url_inject: "data_url env a = data_url env b \<longleftrightarrow> a = b"
  by (simp add: data_url_def)

lemma lower_char_o: "lower_char c = CHR ''o'' \<longleftrightarrow> c = CHR ''o'' \<or> c = CHR ''O''"
  by (auto simp: lower_char_def ascii_uppercase_def ascii_lowercase_def split: if_splits)

lemma lower_char_n: "lower_char c = CHR ''n'' \<longleftrightarrow> c = CHR ''n'' \<or> c = CHR ''N''"
  by (auto simp: lower_char_def ascii_uppercase_def ascii_lowercase_def split: if_splits)

lemma py_lower_on: "py_lower v = ''on'' \<longleftrightarrow> v \<in> {''on'', ''On'', ''oN'', ''ON''}"
  by (auto simp: py_lower_def map_eq_Cons_conv lower_char_o lower_char_n)

section \<open>Live telemetry\<close>

lemma live_value_expected:
  assumes "object_bodies env"
  shows "live_value env url = Inr (expected_entry (requests_get env url))
       \<or> (\<exists>e. live_value env url = Inl (RequestException e)
              \<and> expected_entry (requests_get env url) = JStr ''Error'')"
proof (cases "requests_get env url")
  case (Refused e)
  then show ?thesis by (simp add: live_value_def expected_entry_def)
next
  case (Response status body)
  show ?thesis
  proof (cases body)
    case None
    with Response show ?thesis
      by (simp add: live_value_def expected_entry_def raise_for_status_def response_json_def)
  next
    case (Some j)
    with Response assms obtain kvs where "j = JObj kvs"
      unfolding object_bodies_def by blast
    with Response Some show ?thesis
      by (simp add: live_value_def expected_entry_def raise_for_status_def response_json_def)
  qed
qed

lemma fetch_live_step:
  assumes "object_bodies env" and "FEEDS k = Some n"
  shows "fetch_live_loop env (k # ks) data sent
       = fetch_live_loop env ks
           (AList.update k (expected_entry (requests_get env (live_url env n))) data)
           (sent @ [GET (live_url env n)])"
proof -
  have "n \<noteq> []" using assms(2) by (rule FEEDS_nonempty)
  with live_value_expected [OF assms(1), of "live_url env n"] assms(2)
  show ?thesis by (auto simp: Let_def)
qed

text \<open>
  When every body that decodes is a JSON object, \<open>fetch_live_data\<close> returns one entry for
  each of the three keys, each entry decided by the reply to its own request alone, after
  exactly three requests.
\<close>

lemma fetch_live_data_isolated:
  assumes "object_bodies env"
  shows "fetch_live_data env
       = (Inr [(''temperature'', expected_entry (requests_get env (live_url env ''home/temperature''))),
               (''humidity'', expected_entry (requests_get env (live_url env ''home/humidity''))),
               (''motion'', expected_entry (requests_get env (live_url env ''home/motion'')))],
          [GET (live_url env ''home/temperature''),
           GET (live_url env ''home/humidity''),
           GET (live_url env ''home/motion'')])"
proof -
  have t: "FEEDS ''temperature'' = Some ''home/temperature''"
    and h: "FEEDS ''humidity'' = Some ''home/humidity''"
    and m: "FEEDS ''motion'' = Some ''home/motion''"
    by (simp_all add: FEEDS_def)
  show ?thesis
    unfolding fetch_live_data_def monitored_keys_def
    by (simp add: fetch_live_step [OF assms t] fetch_live_step [OF assms h]
        fetch_live_step [OF assms m] del: fetch_live_loop.simps(2))
qed

lemma fetch_live_data_flaky:
  "fetch_live_data env_flaky
     = (Inr [(''temperature'', JStr ''Error''), (''humidity'', JStr ''Error''),
             (''motion'', JStr ''N/A'')],
        [GET ''https://io.adafruit.com/api/v2/demo/feeds/home/temperature/data/last'',
         GET ''https://io.adafruit.com/api/v2/demo/feeds/home/humidity/data/last'',
         GET ''https://io.adafruit.com/api/v2/demo/feeds/home/motion/data/last''])"
  by (simp add: fetch_live_data_def monitored_keys_def FEEDS_def env_flaky_def env_ok_def
      live_url_def live_value_def raise_for_status_def response_json_def)

text \<open>
  C1. \<open>fetch_live_data\<close> is to return one entry for each of temperature, humidity and
  motion whatever the feed service answers, a failure for one key leaving the others
  alone. It does not when a feed answers with JSON that is not an object: for the
  humidity feed answering status 200 with the array \<open>[]\<close>, \<open>response.json().get\<close> raises an
  AttributeError, which the handler for \<open>RequestException\<close> does not catch; the call ends
  with that exception after two requests, and no entry is returned for any key.
\<close>

theorem fetch_live_data_array_body:
  "fetch_live_data env_array_body
     = (Inl (AttributeError ''object has no attribute get''),
        [GET ''https://io.adafruit.com/api/v2/demo/feeds/home/temperature/data/last'',
         GET ''https://io.adafruit.com/api/v2/demo/feeds/home/humidity/data/last''])"
  by (simp add: fetch_live_data_def monitored_keys_def FEEDS_def env_array_body_def env_ok_def
      live_url_def live_value_def raise_for_status_def response_json_def)

text \<open>
  Each of the three keys that \<open>fetch_live_data\<close> visits is in \<open>FEEDS\<close>, with a name
  that is not empty: the \<open>continue\<close> of line 47 is never taken.
\<close>

lemma monitored_keys_registered:
  "\<forall>k\<in>set monitored_keys. \<exists>n. FEEDS k = Some n \<and> n \<noteq> []"
  by (simp add: monitored_keys_def FEEDS_def)

section \<open>Control commands\<close>

lemma send_control_command_sent:
  "snd (send_control_command env feed_key v sent) =
     (case FEEDS feed_key of
        None \<Rightarrow> sent
      | Some feed_name \<Rightarrow> sent @ [POST (data_url env feed_name) (value_payload v)])"
  by (auto simp: send_control_command_def Let_def value_payload_def
      dest: FEEDS_nonempty split: option.splits sum.splits)

text \<open>
  C6, as stated: every status that is not a success gives \<open>(False, errorDetail)\<close>. It
  does not: \<open>raise_for_status\<close> raises for the statuses 400 to 599 only, and a response
  with status 304 gives \<open>(True, "Success")\<close>.
\<close>

theorem send_control_command_304_counterexample:
  "send_control_command env_post_304 ''ctrl_light'' ''ON'' []
     = ((True, ''Success''),
        [POST ''https://io.adafruit.com/api/v2/demo/feeds/home/control/light/data''
           (JObj [(''value'', JStr ''ON'')])])"
  by (simp add: send_control_command_def FEEDS_def post_attempt_def raise_for_status_def
      data_url_def env_post_304_def env_ok_def)

text \<open>
  C6, amended: a feed key that \<open>FEEDS\<close> does not resolve gives
  \<open>(False, "Invalid feed key")\<close> and no request. A resolved key gives exactly one POST, of
  \<open>{"value": v}\<close> to the data URL of the feed, and no retry: \<open>(False, "Error: ...")\<close> with
  the text of the exception when the request fails or the status of the response is a
  4xx or 5xx, and \<open>(True, "Success")\<close> for a response with any other status.
\<close>

theorem send_control_command_contract:
  "(FEEDS feed_key = None \<longrightarrow>
      send_control_command env feed_key v sent = ((False, ''Invalid feed key''), sent))
 \<and> (FEEDS feed_key = Some feed_name
      \<and> requests_post env (data_url env feed_name) (value_payload v) = Response status body
      \<and> \<not> (400 \<le> status \<and> status < 600) \<longrightarrow>
      send_control_command env feed_key v sent
        = ((True, ''Success''), sent @ [POST (data_url env feed_name) (value_payload v)]))
 \<and> (FEEDS feed_key = Some feed_name
      \<and> requests_post env (data_url env feed_name) (value_payload v) = Refused e \<longrightarrow>
      send_control_command env feed_key v sent
        = ((False, ''Error: '' @ e), sent @ [POST (data_url env feed_name) (value_payload v)]))
 \<and> (FEEDS feed_key = Some feed_name
      \<and> requests_post env (data_url env feed_name) (value_payload v) = Response status body
      \<and> 400 \<le> status \<and> status < 600 \<longrightarrow>
      send_control_command env feed_key v sent
        = ((False, ''Error: '' @ http_error_str env status (data_url env feed_name)),
           sent @ [POST (data_url env feed_name) (value_payload v)]))"
  by (auto simp: send_control_command_def Let_def post_attempt_def raise_for_status_def
      value_payload_def dest: FEEDS_nonempty)

theorem send_control_command_contract_witness:
  "send_control_command env_ok ''ctrl_fan'' ''ON'' [] = ((False, ''Invalid feed key''), [])
 \<and> send_control_command env_ok ''ctrl_light'' ''ON'' []
     = ((True, ''Success''),
        [POST ''https://io.adafruit.com/api/v2/demo/feeds/home/control/light/data''
           (JObj [(''value'', JStr ''ON'')])])
 \<and> send_control_command env_post_refused ''ctrl_light'' ''ON'' []
     = ((False, ''Error: Read timed out''),
        [POST ''https://io.adafruit.com/api/v2/demo/feeds/home/control/light/data''
           (JObj [(''value'', JStr ''ON'')])])
 \<and> send_control_command env_post_404 ''ctrl_light'' ''ON'' []
     = ((False, ''Error: HTTP error for url: https://io.adafruit.com/api/v2/demo/feeds/home/control/light/data''),
        [POST ''https://io.adafruit.com/api/v2/demo/feeds/home/control/light/data''
           (JObj [(''value'', JStr ''ON'')])])"
proof -
  have none: "FEEDS ''ctrl_fan'' = None"
    and light: "FEEDS ''ctrl_light'' = Some ''home/control/light''"
    by (simp_all add: FEEDS_def)
  have ok: "requests_post env_ok (data_url env_ok ''home/control/light'') (value_payload ''ON'')
              = Response 200 (Some (JObj []))"
    and refused: "requests_post env_post_refused (data_url env_post_refused ''home/control/light'')
              (value_payload ''ON'') = Refused ''Read timed out''"
    and missing: "requests_post env_post_404 (data_url env_post_404 ''home/control/light'')
              (value_payload ''ON'') = Response 404 None"
    by (simp_all add: env_ok_def env_post_refused_def env_post_404_def)
  show ?thesis
    using none light ok refused missing
      send_control_command_contract
        [where feed_key = "''ctrl_fan''" and env = env_ok and v = "''ON''" and sent = "[]"]
      send_control_command_contract
        [where feed_key = "''ctrl_light''" and feed_name = "''home/control/light''"
           and env = env_ok and v = "''ON''" and status = 200 and body = "Some (JObj [])"
           and sent = "[]"]
      send_control_command_contract
        [where feed_key = "''ctrl_light''" and feed_name = "''home/control/light''"
           and env = env_post_refused and v = "''ON''" and e = "''Read timed out''"
           and sent = "[]"]
      send_control_command_contract
        [where feed_key = "''ctrl_light''" and feed_name = "''home/control/light''"
           and env = env_post_404 and v = "''ON''" and status = 404 and body = None
           and sent = "[]"]
    by (simp add: data_url_def value_payload_def env_ok_def env_post_refused_def
        env_post_404_def)
qed

section \<open>The control API\<close>

lemma dispatch_sent:
  "snd (dispatch env device feed_key v sent) = snd (send_control_command env feed_key v sent)"
  by (simp add: dispatch_def split: prod.splits)

lemma dispatch_status:
  "resp_status (fst (dispatch env device feed_key v sent)) \<in> {200, 500}"
  by (simp add: dispatch_def split: prod.splits)

lemma control_device_api_sent:
  "snd (control_device_api env device v [])
     \<in> {[], [POST (data_url env ''home/control/lcd_message'') (value_payload v)],
         [POST (data_url env ''home/control/light'') (value_payload (str_upper env v))],
         [POST (data_url env ''home/control/mode'') (value_payload ''ARMED'')],
         [POST (data_url env ''home/control/mode'') (value_payload ''DISARMED'')]}"
  by (simp add: control_device_api_def feed_key_map_def dispatch_sent
      send_control_command_sent FEEDS_def)

text \<open>
  C7. A device other than \<open>light\<close>, \<open>lcd_text\<close> and \<open>mode\<close> is answered with status 400 and
  the message \<open>Invalid device\<close>, and nothing is sent. For \<open>lcd_text\<close>, a value of more than
  32 characters is answered with status 400, and nothing is sent; a value of at most 32
  characters is dispatched as it is: the one request sent is the POST of that very value
  to the LCD feed, and the answer is not a 400.
\<close>

theorem control_device_api_validation:
  "(device \<notin> {''light'', ''lcd_text'', ''mode''} \<longrightarrow>
      control_device_api env device v sent
        = (\<lparr>resp_success = False, resp_message = ''Invalid device'', resp_status = 400\<rparr>, sent))
 \<and> (length v > 32 \<longrightarrow>
      control_device_api env ''lcd_text'' v sent
        = (\<lparr>resp_success = False, resp_message = ''Text must be 32 characters or less.'',
             resp_status = 400\<rparr>, sent))
 \<and> (length v \<le> 32 \<longrightarrow>
      control_device_api env ''lcd_text'' v sent = dispatch env ''lcd_text'' ''ctrl_lcd_text'' v sent
    \<and> snd (control_device_api env ''lcd_text'' v sent)
        = sent @ [POST (data_url env ''home/control/lcd_message'') (value_payload v)]
    \<and> resp_status (fst (control_device_api env ''lcd_text'' v sent)) \<noteq> 400)"
proof (intro conjI impI)
  assume "device \<notin> {''light'', ''lcd_text'', ''mode''}"
  then show "control_device_api env device v sent
        = (\<lparr>resp_success = False, resp_message = ''Invalid device'', resp_status = 400\<rparr>, sent)"
    by (simp add: control_device_api_def feed_key_map_def)
next
  assume "length v > 32"
  then show "control_device_api env ''lcd_text'' v sent
        = (\<lparr>resp_success = False, resp_message = ''Text must be 32 characters or less.'',
             resp_status = 400\<rparr>, sent)"
    by (simp add: control_device_api_def feed_key_map_def MAX_LENGTH_def)
next
  assume le: "length v \<le> 32"
  then show eq: "control_device_api env ''lcd_text'' v sent
      = dispatch env ''lcd_text'' ''ctrl_lcd_text'' v sent"
    by (simp add: control_device_api_def feed_key_map_def MAX_LENGTH_def)
  show "snd (control_device_api env ''lcd_text'' v sent)
        = sent @ [POST (data_url env ''home/control/lcd_message'') (value_payload v)]"
    by (simp add: eq dispatch_sent send_control_command_sent FEEDS_def)
  show "resp_status (fst (control_device_api env ''lcd_text'' v sent)) \<noteq> 400"
    using dispatch_status [of env "''lcd_text''" "''ctrl_lcd_text''" v sent] by (auto simp: eq)
qed

theorem control_device_api_validation_witness:
  "control_device_api env_ok ''fan'' ''ON'' []
     = (\<lparr>resp_success = False, resp_message = ''Invalid device'', resp_status = 400\<rparr>, [])
 \<and> length ''abcdefghijklmnopqrstuvwxyz0123456'' = 33
 \<and> control_device_api env_ok ''lcd_text'' ''abcdefghijklmnopqrstuvwxyz0123456'' []
     = (\<lparr>resp_success = False, resp_message = ''Text must be 32 characters or less.'',
          resp_status = 400\<rparr>, [])
 \<and> length ''abcdefghijklmnopqrstuvwxyz012345'' = 32
 \<and> snd (control_device_api env_ok ''lcd_text'' ''abcdefghijklmnopqrstuvwxyz012345'' [])
     = [POST ''https://io.adafruit.com/api/v2/demo/feeds/home/control/lcd_message/data''
          (JObj [(''value'', JStr ''abcdefghijklmnopqrstuvwxyz012345'')])]"
proof -
  have dev: "''fan'' \<notin> {''light'', ''lcd_text'', ''mode''}" by simp
  have long: "length ''abcdefghijklmnopqrstuvwxyz0123456'' > 32"
    and short: "length ''abcdefghijklmnopqrstuvwxyz012345'' \<le> 32"
    by simp_all
  have user: "AIO_USERNAME env_ok = ''demo''" by (simp add: env_ok_def)
  have a: "control_device_api env_ok ''fan'' ''ON'' []
     = (\<lparr>resp_success = False, resp_message = ''Invalid device'', resp_status = 400\<rparr>, [])"
    by (rule control_device_api_validation
        [where device = "''fan''" and env = env_ok and sent = "[]" and v = "''ON''",
          THEN conjunct1, THEN mp, OF dev])
  have b: "control_device_api env_ok ''lcd_text'' ''abcdefghijklmnopqrstuvwxyz0123456'' []
     = (\<lparr>resp_success = False, resp_message = ''Text must be 32 characters or less.'',
          resp_status = 400\<rparr>, [])"
    by (rule control_device_api_validation
        [where device = "''fan''" and env = env_ok and sent = "[]"
           and v = "''abcdefghijklmnopqrstuvwxyz0123456''",
          THEN conjunct2, THEN conjunct1, THEN mp, OF long])
  have c: "snd (control_device_api env_ok ''lcd_text'' ''abcdefghijklmnopqrstuvwxyz012345'' [])
     = [] @ [POST (data_url env_ok ''home/control/lcd_message'')
               (value_payload ''abcdefghijklmnopqrstuvwxyz012345'')]"
    by (rule control_device_api_validation
        [where device = "''fan''" and env = env_ok and sent = "[]"
           and v = "''abcdefghijklmnopqrstuvwxyz012345''",
          THEN conjunct2, THEN conjunct2, THEN mp, OF short, THEN conjunct2, THEN conjunct1])
  show ?thesis
    unfolding a b c by (simp add: data_url_def value_payload_def user)
qed

text \<open>
  C8. For the device \<open>mode\<close>, a value equal to \<open>on\<close> in any letter case is dispatched
  as \<open>ARMED\<close> and every other value as \<open>DISARMED\<close>. Every mapped device other than
  \<open>mode\<close> and \<open>lcd_text\<close>, which is the device \<open>light\<close>, has its raw value dispatched
  upper-cased by \<open>str.upper\<close>. In each case the one request sent is the POST of that
  value to the feed of the device.
\<close>

theorem control_value_normalisation:
  "(v \<in> {''on'', ''On'', ''oN'', ''ON''} \<longrightarrow>
      snd (control_device_api env ''mode'' v sent)
        = sent @ [POST (data_url env ''home/control/mode'') (value_payload ''ARMED'')])
 \<and> (v \<notin> {''on'', ''On'', ''oN'', ''ON''} \<longrightarrow>
      snd (control_device_api env ''mode'' v sent)
        = sent @ [POST (data_url env ''home/control/mode'') (value_payload ''DISARMED'')])
 \<and> (feed_key_map device \<noteq> None \<and> device \<noteq> ''mode'' \<and> device \<noteq> ''lcd_text'' \<longrightarrow>
      device = ''light''
    \<and> snd (control_device_api env device v sent)
        = sent @ [POST (data_url env ''home/control/light'') (value_payload (str_upper env v))])"
proof (intro conjI impI)
  assume "v \<in> {''on'', ''On'', ''oN'', ''ON''}"
  then have "py_lower v = ''on''" by (simp only: py_lower_on)
  then show "snd (control_device_api env ''mode'' v sent)
        = sent @ [POST (data_url env ''home/control/mode'') (value_payload ''ARMED'')]"
    by (simp add: control_device_api_def feed_key_map_def dispatch_sent
        send_control_command_sent FEEDS_def)
next
  assume "v \<notin> {''on'', ''On'', ''oN'', ''ON''}"
  then have "py_lower v \<noteq> ''on''" by (simp only: py_lower_on not_False_eq_True)
  then show "snd (control_device_api env ''mode'' v sent)
        = sent @ [POST (data_url env ''home/control/mode'') (value_payload ''DISARMED'')]"
    by (simp add: control_device_api_def feed_key_map_def dispatch_sent
        send_control_command_sent FEEDS_def)
next
  assume a: "feed_key_map device \<noteq> None \<and> device \<noteq> ''mode'' \<and> device \<noteq> ''lcd_text''"
  then show light: "device = ''light''"
    by (auto simp: feed_key_map_def split: if_splits)
  show "snd (control_device_api env device v sent)
        = sent @ [POST (data_url env ''home/control/light'') (value_payload (str_upper env v))]"
    unfolding light
    by (simp add: control_device_api_def feed_key_map_def dispatch_sent
        send_control_command_sent FEEDS_def)
qed

theorem control_value_normalisation_witness:
  "snd (control_device_api env_ok ''mode'' ''ON'' [])
     = [POST ''https://io.adafruit.com/api/v2/demo/feeds/home/control/mode/data''
          (JObj [(''value'', JStr ''ARMED'')])]
 \<and> snd (control_device_api env_ok ''mode'' ''off'' [])
     = [POST ''https://io.adafruit.com/api/v2/demo/feeds/home/control/mode/data''
          (JObj [(''value'', JStr ''DISARMED'')])]
 \<and> snd (control_device_api env_ok ''light'' ''off'' [])
     = [POST ''https://io.adafruit.com/api/v2/demo/feeds/home/control/light/data''
          (JObj [(''value'', JStr ''OFF'')])]"
proof -
  have on: "''ON'' \<in> {''on'', ''On'', ''oN'', ''ON''}"
    and off: "''off'' \<notin> {''on'', ''On'', ''oN'', ''ON''}"
    by simp_all
  have dev: "feed_key_map ''light'' \<noteq> None \<and> ''light'' \<noteq> ''mode'' \<and> ''light'' \<noteq> ''lcd_text''"
    by (simp add: feed_key_map_def)
  have up: "str_upper env_ok ''off'' = ''OFF''"
    by (simp add: env_ok_def ascii_upper_def upper_char_def ascii_uppercase_def
        ascii_lowercase_def)
  have user: "AIO_USERNAME env_ok = ''demo''" by (simp add: env_ok_def)
  have a: "snd (control_device_api env_ok ''mode'' ''ON'' [])
     = [] @ [POST (data_url env_ok ''home/control/mode'') (value_payload ''ARMED'')]"
    by (rule control_value_normalisation
        [where v = "''ON''" and env = env_ok and sent = "[]", THEN conjunct1, THEN mp, OF on])
  have b: "snd (control_device_api env_ok ''mode'' ''off'' [])
     = [] @ [POST (data_url env_ok ''home/control/mode'') (value_payload ''DISARMED'')]"
    by (rule control_value_normalisation
        [where v = "''off''" and env = env_ok and sent = "[]",
          THEN conjunct2, THEN conjunct1, THEN mp, OF off])
  have c: "snd (control_device_api env_ok ''light'' ''off'' [])
     = [] @ [POST (data_url env_ok ''home/control/light'')
               (value_payload (str_upper env_ok ''off''))]"
    by (rule control_value_normalisation
        [where v = "''off''" and env = env_ok and sent = "[]" and device = "''light''",
          THEN conjunct2, THEN conjunct2, THEN mp, OF dev, THEN conjunct2])
  show ?thesis
    unfolding a b c by (simp add: data_url_def value_payload_def user up)
qed

text \<open>
  C10. Whatever the device and the raw value given to the control API, and whatever the
  method, action and date given to the security page, every payload posted to the data
  URL of the feed \<open>ctrl_mode\<close> is \<open>{"value": "ARMED"}\<close> or \<open>{"value": "DISARMED"}\<close>.
\<close>

theorem mode_feed_values:
  "set (posted_to env ''ctrl_mode'' (snd (control_device_api env device v [])))
     \<subseteq> {value_payload ''ARMED'', value_payload ''DISARMED''}
 \<and> set (posted_to env ''ctrl_mode''
          (fst (snd (manage_security env db method action log_date [] tr))))
     \<subseteq> {value_payload ''ARMED'', value_payload ''DISARMED''}"
proof
  show "set (posted_to env ''ctrl_mode'' (snd (control_device_api env device v [])))
     \<subseteq> {value_payload ''ARMED'', value_payload ''DISARMED''}"
    using control_device_api_sent [of env device v]
    by (auto simp: posted_to_def FEEDS_def data_url_inject)
next
  have "fst (snd (manage_security env db method action log_date [] tr))
     \<in> {[], [POST (data_url env ''home/control/mode'') (value_payload ''ARMED'')],
         [POST (data_url env ''home/control/mode'') (value_payload ''DISARMED'')]}"
    using send_control_command_sent [of env "''ctrl_mode''" "''ARMED''" "[]"]
      send_control_command_sent [of env "''ctrl_mode''" "''DISARMED''" "[]"]
    by (auto simp: manage_security_def FEEDS_def split: prod.splits option.splits sum.splits)
  then show "set (posted_to env ''ctrl_mode''
          (fst (snd (manage_security env db method action log_date [] tr))))
     \<subseteq> {value_payload ''ARMED'', value_payload ''DISARMED''}"
    by (auto simp: posted_to_def FEEDS_def)
qed

theorem mode_feed_values_witness:
  "posted_to env_ok ''ctrl_mode'' (snd (control_device_api env_ok ''mode'' ''maybe'' []))
     = [JObj [(''value'', JStr ''DISARMED'')]]
 \<and> posted_to env_ok ''ctrl_mode''
      (fst (snd (manage_security env_ok db_example ''POST'' (Some ''arm'') None [] trace0)))
     = [JObj [(''value'', JStr ''ARMED'')]]
 \<and> posted_to env_ok ''ctrl_mode'' (snd (control_device_api env_ok ''light'' ''armed'' [])) = []"
  using mode_feed_values [of env_ok "''mode''" "''maybe''" db_example "''POST''" "Some ''arm''"
      None trace0]
  by (simp add: posted_to_def control_device_api_def manage_security_def feed_key_map_def
      dispatch_def send_control_command_def post_attempt_def raise_for_status_def FEEDS_def
      data_url_def env_ok_def value_payload_def py_lower_def ascii_upper_def lower_char_def
      upper_char_def ascii_uppercase_def ascii_lowercase_def)

section \<open>Database connections\<close>

lemma cursor_execute_conns:
  "conns_opened (snd (cursor_execute env tr)) = conns_opened tr"
  "conns_closed (snd (cursor_execute env tr)) = conns_closed tr"
  by (simp_all add: cursor_execute_def split: option.splits)

lemma historical_try_conns:
  "conns_opened (snd (historical_try env d sensor tr)) = conns_opened tr"
  "conns_closed (snd (historical_try env d sensor tr)) = conns_closed tr"
  using cursor_execute_conns [of env tr]
  by (auto simp: historical_try_def Let_def split: option.splits sum.splits prod.splits)

lemma intrusion_try_conns:
  "conns_opened (snd (intrusion_try env d tr)) = conns_opened tr"
  "conns_closed (snd (intrusion_try env d tr)) = conns_closed tr"
  using cursor_execute_conns [of env tr]
  by (auto simp: intrusion_try_def split: option.splits sum.splits prod.splits)

lemma fetch_historical_data_balanced:
  "conns_opened (snd (fetch_historical_data env d sensor tr)) + conns_closed tr
     = conns_closed (snd (fetch_historical_data env d sensor tr)) + conns_opened tr"
proof (cases "connect_error env")
  case (Some e)
  then show ?thesis by (simp add: fetch_historical_data_def connect_to_neon_def)
next
  case None
  define tr1 where "tr1 = tr\<lparr>connect_attempts := connect_attempts tr + 1,
                       conns_opened := conns_opened tr + 1\<rparr>"
  have "snd (fetch_historical_data env d sensor tr)
          = conn_close (snd (historical_try env d sensor tr1))"
    using None
    by (simp add: fetch_historical_data_def connect_to_neon_def tr1_def
        split: prod.splits sum.splits py_exn.splits)
  then show ?thesis
    by (simp add: conn_close_def historical_try_conns tr1_def)
qed

lemma fetch_intrusion_logs_balanced:
  "conns_opened (snd (fetch_intrusion_logs env d tr)) + conns_closed tr
     = conns_closed (snd (fetch_intrusion_logs env d tr)) + conns_opened tr"
proof (cases "connect_error env")
  case (Some e)
  then show ?thesis by (simp add: fetch_intrusion_logs_def connect_to_neon_def)
next
  case None
  define tr1 where "tr1 = tr\<lparr>connect_attempts := connect_attempts tr + 1,
                       conns_opened := conns_opened tr + 1\<rparr>"
  have "snd (fetch_intrusion_logs env d tr) = conn_close (snd (intrusion_try env d tr1))"
    using None
    by (simp add: fetch_intrusion_logs_def connect_to_neon_def tr1_def
        split: prod.splits sum.splits py_exn.splits)
  then show ?thesis
    by (simp add: conn_close_def intrusion_try_conns tr1_def)
qed

text \<open>
  C2. For every call of \<open>fetch_historical_data\<close> and of \<open>fetch_intrusion_logs\<close>, whatever
  the database does (connection refused, cursor or query error, a reading that \<open>float\<close>
  rejects, an unknown sensor, success), the connections opened during the call are as
  many as the connections closed during it, also when the call ends with an exception.
\<close>

theorem connections_opened_are_closed:
  "conns_opened (snd (fetch_historical_data env d sensor tr)) + conns_closed tr
     = conns_closed (snd (fetch_historical_data env d sensor tr)) + conns_opened tr
 \<and> conns_opened (snd (fetch_intrusion_logs env d tr)) + conns_closed tr
     = conns_closed (snd (fetch_intrusion_logs env d tr)) + conns_opened tr"
  using fetch_historical_data_balanced fetch_intrusion_logs_balanced by blast

text \<open>
  C3, as stated: an unknown sensor is rejected before any connection is opened. It is
  not: \<open>fetch_historical_data\<close> connects first (line 89) and tests the sensor inside the
  \<open>try\<close> (line 99). For the sensor \<open>motion\<close> and a reachable database, one connection is
  attempted, opened and closed before the rejection is returned.
\<close>

theorem invalid_sensor_connects_first_counterexample:
  "DB_SENSOR_MAP ''motion'' = None
 \<and> fetch_historical_data db_example (2024, 5, 1) ''motion'' trace0
     = (Inr (None, Some ''Invalid sensor requested.''),
        \<lparr>connect_attempts = 1, conns_opened = 1, conns_closed = 1, queries_run = 0\<rparr>)"
  by (simp add: DB_SENSOR_MAP_def fetch_historical_data_def connect_to_neon_def db_example_def
      historical_try_def conn_close_def trace0_def)

text \<open>
  C3, amended: for a sensor without a column in \<open>DB_SENSOR_MAP\<close>, \<open>fetch_historical_data\<close>
  runs no query. It first attempts a connection: when the connection and the cursor are
  obtained it returns \<open>(None, "Invalid sensor requested.")\<close>, having opened one connection
  and closed it; when the connection fails it returns the connection error instead.
\<close>

theorem invalid_sensor_rejected_after_connect:
  assumes "DB_SENSOR_MAP sensor = None"
  shows "(connect_error env = None \<and> cursor_error env = None \<longrightarrow>
           fetch_historical_data env d sensor tr
             = (Inr (None, Some ''Invalid sensor requested.''),
                tr\<lparr>connect_attempts := connect_attempts tr + 1,
                    conns_opened := conns_opened tr + 1,
                    conns_closed := conns_closed tr + 1\<rparr>))
       \<and> (\<forall>e. connect_error env = Some e \<longrightarrow>
           fetch_historical_data env d sensor tr
             = (Inr (None, Some ''Failed to connect to the cloud database.''),
                tr\<lparr>connect_attempts := connect_attempts tr + 1\<rparr>))
       \<and> queries_run (snd (fetch_historical_data env d sensor tr)) = queries_run tr"
  using assms
  by (auto simp: fetch_historical_data_def connect_to_neon_def historical_try_def conn_close_def
      split: option.splits)

theorem invalid_sensor_rejected_after_connect_witness:
  "DB_SENSOR_MAP ''motion'' = None
 \<and> connect_error db_example = None \<and> cursor_error db_example = None
 \<and> fetch_historical_data db_example (2024, 5, 1) ''motion'' trace0
     = (Inr (None, Some ''Invalid sensor requested.''),
        \<lparr>connect_attempts = 1, conns_opened = 1, conns_closed = 1, queries_run = 0\<rparr>)
 \<and> connect_error db_down = Some ''connection refused''
 \<and> fetch_historical_data db_down (2024, 5, 1) ''motion'' trace0
     = (Inr (None, Some ''Failed to connect to the cloud database.''),
        \<lparr>connect_attempts = 1, conns_opened = 0, conns_closed = 0, queries_run = 0\<rparr>)"
proof -
  have s: "DB_SENSOR_MAP ''motion'' = None" by (simp add: DB_SENSOR_MAP_def)
  have up: "connect_error db_example = None \<and> cursor_error db_example = None"
    by (simp add: db_example_def)
  have down: "connect_error db_down = Some ''connection refused''"
    by (simp add: db_down_def)
  have a: "fetch_historical_data db_example (2024, 5, 1) ''motion'' trace0
     = (Inr (None, Some ''Invalid sensor requested.''),
        trace0\<lparr>connect_attempts := connect_attempts trace0 + 1,
               conns_opened := conns_opened trace0 + 1,
               conns_closed := conns_closed trace0 + 1\<rparr>)"
    by (rule invalid_sensor_rejected_after_connect
        [OF s, where env = db_example and tr = trace0, THEN conjunct1, THEN mp, OF up])
  have b: "fetch_historical_data db_down (2024, 5, 1) ''motion'' trace0
     = (Inr (None, Some ''Failed to connect to the cloud database.''),
        trace0\<lparr>connect_attempts := connect_attempts trace0 + 1\<rparr>)"
    by (rule invalid_sensor_rejected_after_connect
        [OF s, where env = db_down and tr = trace0, THEN conjunct2, THEN conjunct1,
          THEN spec, THEN mp, OF down])
  show ?thesis
    unfolding a b using s up down by (simp add: trace0_def)
qed

section \<open>Intrusion logs\<close>

lemma where_clause_error_some: "\<exists>e. where_clause_error t = Some e"
  by (cases t) (simp_all add: where_clause_error_def eq_operator_exists_def)

text \<open>
  Whatever the type of the motion column and whatever the table holds,
  \<open>fetch_intrusion_logs\<close> returns no entry, and an error.
\<close>

lemma fetch_intrusion_logs_no_entry:
  "\<exists>e. fst (fetch_intrusion_logs env d tr) = Inr ([], Some e)"
proof -
  obtain e where "where_clause_error (motion_type env) = Some e"
    using where_clause_error_some by blast
  then show ?thesis
    by (auto simp: fetch_intrusion_logs_def connect_to_neon_def intrusion_try_def
        cursor_execute_def split: option.splits)
qed

text \<open>
  C4. \<open>fetch_intrusion_logs\<close> is to return, most recent first, the rows of the date whose
  motion flag is true or 1. It returns none of them: PostgreSQL rejects the condition
  \<open>motion = TRUE OR motion = 1\<close> of line 153, since the column cannot be compared with
  both a boolean and an integer, and the handler of line 166 turns the error into an
  empty log. The example table holds two rows of 1 May 2024 with motion and an image
  path, in a boolean column; the call for that date returns no entry and the error, and
  so does the call on the table with the integer column.
\<close>

theorem intrusion_query_rejected:
  "map image_path
     (filter (\<lambda>r. (year (ts_iso r), month (ts_iso r), day (ts_iso r)) = (2024, 5, 1)
                 \<and> motion r = MotionBool True) (sensor_data db_example))
     = [Some ''img/a.jpg'', Some ''img/b.jpg'']
 \<and> fetch_intrusion_logs db_example (2024, 5, 1) trace0
     = (Inr ([], Some ''Database Query Error: operator does not exist: boolean = integer''),
        \<lparr>connect_attempts = 1, conns_opened = 1, conns_closed = 1, queries_run = 1\<rparr>)
 \<and> map image_path
     (filter (\<lambda>r. (year (ts_iso r), month (ts_iso r), day (ts_iso r)) = (2024, 5, 1)
                 \<and> motion r = MotionInt 1) (sensor_data db_integer))
     = [Some ''img/a.jpg'']
 \<and> fetch_intrusion_logs db_integer (2024, 5, 1) trace0
     = (Inr ([], Some ''Database Query Error: operator does not exist: integer = boolean''),
        \<lparr>connect_attempts = 1, conns_opened = 1, conns_closed = 1, queries_run = 1\<rparr>)"
  by (simp add: db_example_def db_integer_def example_table_def integer_table_def mk_time_def
      fetch_intrusion_logs_def connect_to_neon_def intrusion_try_def cursor_execute_def
      where_clause_error_def eq_operator_exists_def conn_close_def trace0_def)

section \<open>Historical data\<close>

lemma float_all_Inr: "float_all f xs = Inr ys \<Longrightarrow> map f xs = map Inr ys"
proof (induction xs arbitrary: ys)
  case Nil
  then show ?case by simp
next
  case (Cons x xs)
  then show ?case by (auto split: sum.splits)
qed

lemma float_all_total:
  "\<forall>x\<in>set xs. \<exists>y. f x = Inr y \<Longrightarrow> \<exists>ys. float_all f xs = Inr ys"
proof (induction xs)
  case Nil
  then show ?case by simp
next
  case (Cons x xs)
  then obtain y ys where "f x = Inr y" "float_all f xs = Inr ys" by auto
  then show ?case by simp
qed

lemma sensor_column:
  "DB_SENSOR_MAP sensor = Some col \<Longrightarrow>
     (sensor = ''temperature'' \<and> col = ''temp_c'')
   \<or> (sensor = ''humidity'' \<and> col = ''humidity_pct'')"
  by (auto simp: DB_SENSOR_MAP_def split: if_splits)

lemma display_names:
  "py_capitalize ''temperature'' = ''Temperature''"
  "py_capitalize ''humidity'' = ''Humidity''"
  by (simp_all add: upper_char_def lower_char_def ascii_uppercase_def ascii_lowercase_def)

lemma strftime_HM_digits:
  "strftime_HM t
     = [''0123456789'' ! (hour t div 10 mod 10), ''0123456789'' ! (hour t mod 10), CHR '':'',
        ''0123456789'' ! (minute t div 10 mod 10), ''0123456789'' ! (minute t mod 10)]"
  unfolding strftime_HM_def pad2_def digit_def by simp

lemma sorted_by_first_key:
  fixes k :: "'a \<Rightarrow> 'k::linorder" and t :: "'a \<Rightarrow> 't::linorder"
  shows "sorted (map k (sort_key (\<lambda>r. (k r, t r)) xs))"
proof -
  have "sorted (map (\<lambda>r. (k r, t r)) (sort_key (\<lambda>r. (k r, t r)) xs))"
    by (rule sorted_sort_key)
  then have "sorted_wrt (\<lambda>a b. (k a, t a) \<le> (k b, t b)) (sort_key (\<lambda>r. (k r, t r)) xs)"
    by (simp only: sorted_wrt_map)
  then have "sorted_wrt (\<lambda>a b. k a \<le> k b) (sort_key (\<lambda>r. (k r, t r)) xs)"
    by (rule sorted_wrt_mono_rel [rotated]) (auto simp: less_eq_prod_def)
  then show ?thesis by (simp only: sorted_wrt_map)
qed

lemma sorted_by_timestamp:
  "sorted (map (\<lambda>r. dt_key (ts_iso r)) (sort_key (\<lambda>r. (dt_key (ts_iso r), tie r)) xs))"
  by (rule sorted_by_first_key [of "\<lambda>r. dt_key (ts_iso r)" tie xs])

text \<open>What a returned chart is made of, in the terms of the model.\<close>

lemma returned_chart:
  assumes "fst (fetch_historical_data env d sensor tr) = Inr (Some chart, err)"
  shows "err = None
       \<and> (\<exists>col vals.
             DB_SENSOR_MAP sensor = Some col
           \<and> float_all (py_float env)
               (map snd (history_query (sensor_data env) (tie_order env) col d)) = Inr vals
           \<and> chart = \<lparr>labels = map (\<lambda>row. strftime_HM (fst row))
                                  (history_query (sensor_data env) (tie_order env) col d),
                       datasets = [\<lparr>ds_label = py_capitalize sensor, ds_data = vals,
                                    borderColor = ''#3498db'', tension = 3 / 10\<rparr>]\<rparr>)"
  using assms
  by (auto simp: fetch_historical_data_def connect_to_neon_def historical_try_def
      cursor_execute_def Let_def
      split: option.splits sum.splits prod.splits py_exn.splits)

lemma chart_is_returned:
  assumes "DB_SENSOR_MAP sensor = Some col"
    and "connect_error env = None" and "cursor_error env = None" and "execute_error env = None"
    and "float_all (py_float env)
           (map snd (history_query (sensor_data env) (tie_order env) col d)) = Inr vals"
  shows "\<exists>chart. fst (fetch_historical_data env d sensor tr) = Inr (Some chart, None)"
  using assms
  by (simp add: fetch_historical_data_def connect_to_neon_def historical_try_def
      cursor_execute_def Let_def)

text \<open>
  C9. Whenever \<open>fetch_historical_data\<close> returns a chart, it returns no error with it,
  the sensor is \<open>temperature\<close> or \<open>humidity\<close>, and the chart is made from exactly the rows
  of the table whose date is the requested one, each as often as it is stored, in
  ascending timestamp order: its labels are the hour and the minute of their timestamps,
  two digits each with a colon between; its one dataset holds \<open>float\<close> of the \<open>temp_c\<close>
  readings for \<open>temperature\<close> and of the \<open>humidity_pct\<close> readings for \<open>humidity\<close>, in the
  same order, under the label \<open>Temperature\<close> or \<open>Humidity\<close>. And it does return a chart for
  each of the two sensors and every date, when the connection, the cursor and the query
  succeed and \<open>float\<close> accepts the readings of that date.
\<close>

theorem history_rows_in_order:
  fixes env :: "('v, 'f) db_env"
  shows
  "(\<forall>chart err.
      fst (fetch_historical_data env d sensor tr) = Inr (Some chart, err) \<longrightarrow>
        err = None
      \<and> (sensor = ''temperature'' \<or> sensor = ''humidity'')
      \<and> (\<exists>rows vals.
            mset rows
              = mset (filter (\<lambda>r. (year (ts_iso r), month (ts_iso r), day (ts_iso r)) = d)
                        (sensor_data env))
          \<and> sorted (map (\<lambda>r. (year (ts_iso r), month (ts_iso r), day (ts_iso r),
                               hour (ts_iso r), minute (ts_iso r), second (ts_iso r),
                               microsecond (ts_iso r))) rows)
          \<and> map (\<lambda>r. py_float env
                        (if sensor = ''temperature'' then temp_c r else humidity_pct r)) rows
              = map Inr vals
          \<and> chart
              = \<lparr>labels =
                   map (\<lambda>r. [''0123456789'' ! (hour (ts_iso r) div 10 mod 10),
                             ''0123456789'' ! (hour (ts_iso r) mod 10),
                             CHR '':'',
                             ''0123456789'' ! (minute (ts_iso r) div 10 mod 10),
                             ''0123456789'' ! (minute (ts_iso r) mod 10)]) rows,
                 datasets =
                   [\<lparr>ds_label = (if sensor = ''temperature'' then ''Temperature''
                                  else ''Humidity''),
                     ds_data = vals, borderColor = ''#3498db'', tension = 3 / 10\<rparr>]\<rparr>))
 \<and> ((sensor = ''temperature'' \<or> sensor = ''humidity'')
      \<and> connect_error env = None \<and> cursor_error env = None \<and> execute_error env = None
      \<and> (\<forall>r\<in>set (sensor_data env).
            (year (ts_iso r), month (ts_iso r), day (ts_iso r)) = d \<longrightarrow>
              (\<exists>y. py_float env
                      (if sensor = ''temperature'' then temp_c r else humidity_pct r)
                    = Inr y)) \<longrightarrow>
      (\<exists>chart. fst (fetch_historical_data env d sensor tr) = Inr (Some chart, None)))"
proof (intro conjI allI impI)
  fix chart err
  assume ret: "fst (fetch_historical_data env d sensor tr) = Inr (Some chart, err)"
  from returned_chart [OF ret] obtain col vals where
    err: "err = None" and col: "DB_SENSOR_MAP sensor = Some col"
    and vals: "float_all (py_float env)
                 (map snd (history_query (sensor_data env) (tie_order env) col d)) = Inr vals"
    and chart: "chart = \<lparr>labels = map (\<lambda>row. strftime_HM (fst row))
                                  (history_query (sensor_data env) (tie_order env) col d),
                       datasets = [\<lparr>ds_label = py_capitalize sensor, ds_data = vals,
                                    borderColor = ''#3498db'', tension = 3 / 10\<rparr>]\<rparr>"
    by blast
  show "err = None" by (rule err)
  from sensor_column [OF col] show sensor: "sensor = ''temperature'' \<or> sensor = ''humidity''"
    by blast
  define rows where
    "rows = sort_key (\<lambda>r. (dt_key (ts_iso r), tie_order env r))
              (filter (\<lambda>r. DATE (ts_iso r) = d) (sensor_data env))"
  have reading: "column col r = (if sensor = ''temperature'' then temp_c r else humidity_pct r)"
    for r :: "'v sensor_row"
    using sensor_column [OF col] by (auto simp: column_def)
  have name: "py_capitalize sensor
                = (if sensor = ''temperature'' then ''Temperature'' else ''Humidity'')"
  proof -
    from sensor_column [OF col]
    consider (t) "sensor = ''temperature''" | (h) "sensor = ''humidity''" by blast
    then show ?thesis
    proof cases
      case t
      show ?thesis unfolding t display_names by simp
    next
      case h
      show ?thesis unfolding h display_names by simp
    qed
  qed
  have q: "history_query (sensor_data env) (tie_order env) col d
             = map (\<lambda>r. (ts_iso r, if sensor = ''temperature'' then temp_c r else humidity_pct r))
                 rows"
    by (simp add: history_query_def rows_def reading)
  have 1: "mset rows
             = mset (filter (\<lambda>r. (year (ts_iso r), month (ts_iso r), day (ts_iso r)) = d)
                       (sensor_data env))"
    by (simp add: rows_def DATE_def)
  have "sorted (map (\<lambda>r. dt_key (ts_iso r)) rows)"
    unfolding rows_def by (rule sorted_by_timestamp)
  then have 2: "sorted (map (\<lambda>r. (year (ts_iso r), month (ts_iso r), day (ts_iso r),
                               hour (ts_iso r), minute (ts_iso r), second (ts_iso r),
                               microsecond (ts_iso r))) rows)"
    by (simp add: dt_key_def)
  have 3: "map (\<lambda>r. py_float env
                        (if sensor = ''temperature'' then temp_c r else humidity_pct r)) rows
              = map Inr vals"
    using float_all_Inr [OF vals] by (simp add: q comp_def)
  have 4: "chart
              = \<lparr>labels =
                   map (\<lambda>r. [''0123456789'' ! (hour (ts_iso r) div 10 mod 10),
                             ''0123456789'' ! (hour (ts_iso r) mod 10),
                             CHR '':'',
                             ''0123456789'' ! (minute (ts_iso r) div 10 mod 10),
                             ''0123456789'' ! (minute (ts_iso r) mod 10)]) rows,
                 datasets =
                   [\<lparr>ds_label = (if sensor = ''temperature'' then ''Temperature''
                                  else ''Humidity''),
                     ds_data = vals, borderColor = ''#3498db'', tension = 3 / 10\<rparr>]\<rparr>"
    unfolding chart q name by (simp add: comp_def strftime_HM_digits)
  from 1 2 3 4 show "\<exists>rows vals.
            mset rows
              = mset (filter (\<lambda>r. (year (ts_iso r), month (ts_iso r), day (ts_iso r)) = d)
                        (sensor_data env))
          \<and> sorted (map (\<lambda>r. (year (ts_iso r), month (ts_iso r), day (ts_iso r),
                               hour (ts_iso r), minute (ts_iso r), second (ts_iso r),
                               microsecond (ts_iso r))) rows)
          \<and> map (\<lambda>r. py_float env
                        (if sensor = ''temperature'' then temp_c r else humidity_pct r)) rows
              = map Inr vals
          \<and> chart
              = \<lparr>labels =
                   map (\<lambda>r. [''0123456789'' ! (hour (ts_iso r) div 10 mod 10),
                             ''0123456789'' ! (hour (ts_iso r) mod 10),
                             CHR '':'',
                             ''0123456789'' ! (minute (ts_iso r) div 10 mod 10),
                             ''0123456789'' ! (minute (ts_iso r) mod 10)]) rows,
                 datasets =
                   [\<lparr>ds_label = (if sensor = ''temperature'' then ''Temperature''
                                  else ''Humidity''),
                     ds_data = vals, borderColor = ''#3498db'', tension = 3 / 10\<rparr>]\<rparr>"
    by blast
next
  assume a: "(sensor = ''temperature'' \<or> sensor = ''humidity'')
      \<and> connect_error env = None \<and> cursor_error env = None \<and> execute_error env = None
      \<and> (\<forall>r\<in>set (sensor_data env).
            (year (ts_iso r), month (ts_iso r), day (ts_iso r)) = d \<longrightarrow>
              (\<exists>y. py_float env
                      (if sensor = ''temperature'' then temp_c r else humidity_pct r)
                    = Inr y))"
  then obtain col where col: "DB_SENSOR_MAP sensor = Some col"
    by (auto simp: DB_SENSOR_MAP_def)
  have reading: "column col r = (if sensor = ''temperature'' then temp_c r else humidity_pct r)"
    for r :: "'v sensor_row"
    using sensor_column [OF col] by (auto simp: column_def)
  have "\<forall>x\<in>set (map snd (history_query (sensor_data env) (tie_order env) col d)).
          \<exists>y. py_float env x = Inr y"
    using a by (auto simp: history_query_def reading DATE_def)
  from float_all_total [OF this] obtain vals where
    "float_all (py_float env)
       (map snd (history_query (sensor_data env) (tie_order env) col d)) = Inr vals"
    by blast
  with col a show "\<exists>chart. fst (fetch_historical_data env d sensor tr) = Inr (Some chart, None)"
    by (intro chart_is_returned) auto
qed

lemma float_of_reading_some: "\<exists>y. float_of_reading (Some q) = Inr y"
  by (simp add: float_of_reading_def)

theorem history_rows_in_order_witness:
  "fst (fetch_historical_data db_example (2024, 5, 1) ''temperature'' trace0)
     = Inr (Some \<lparr>labels = [''08:30'', ''09:05'', ''17:45'', ''23:59''],
               datasets = [\<lparr>ds_label = ''Temperature'', ds_data = [20, 43 / 2, 22, 18],
                            borderColor = ''#3498db'', tension = 3 / 10\<rparr>]\<rparr>, None)
 \<and> fst (fetch_historical_data db_example (2024, 5, 1) ''humidity'' trace0)
     = Inr (Some \<lparr>labels = [''08:30'', ''09:05'', ''17:45'', ''23:59''],
               datasets = [\<lparr>ds_label = ''Humidity'', ds_data = [41, 40, 39, 44],
                            borderColor = ''#3498db'', tension = 3 / 10\<rparr>]\<rparr>, None)
 \<and> (\<exists>chart. fst (fetch_historical_data db_example (2024, 5, 1) ''temperature'' trace0)
               = Inr (Some chart, None))
 \<and> (\<exists>chart. fst (fetch_historical_data db_example (2024, 5, 1) ''humidity'' trace0)
               = Inr (Some chart, None))
 \<and> (\<exists>rows vals.
            mset rows
              = mset (filter (\<lambda>r. (year (ts_iso r), month (ts_iso r), day (ts_iso r)) = (2024, 5, 1))
                        (sensor_data db_example))
          \<and> sorted (map (\<lambda>r. (year (ts_iso r), month (ts_iso r), day (ts_iso r),
                               hour (ts_iso r), minute (ts_iso r), second (ts_iso r),
                               microsecond (ts_iso r))) rows)
          \<and> map (\<lambda>r. py_float db_example
                        (if ''humidity'' = ''temperature'' then temp_c r else humidity_pct r)) rows
              = map Inr vals
          \<and> (\<lparr>labels = [''08:30'', ''09:05'', ''17:45'', ''23:59''],
               datasets = [\<lparr>ds_label = ''Humidity'', ds_data = [41, 40, 39, 44],
                            borderColor = ''#3498db'', tension = 3 / 10\<rparr>]\<rparr> :: rat chart_data)
              = \<lparr>labels =
                   map (\<lambda>r. [''0123456789'' ! (hour (ts_iso r) div 10 mod 10),
                             ''0123456789'' ! (hour (ts_iso r) mod 10),
                             CHR '':'',
                             ''0123456789'' ! (minute (ts_iso r) div 10 mod 10),
                             ''0123456789'' ! (minute (ts_iso r) mod 10)]) rows,
                 datasets =
                   [\<lparr>ds_label = (if ''humidity'' = ''temperature'' then ''Temperature''
                                  else ''Humidity''),
                     ds_data = vals, borderColor = ''#3498db'', tension = 3 / 10\<rparr>]\<rparr>)"
proof -
  have val_t: "fst (fetch_historical_data db_example (2024, 5, 1) ''temperature'' trace0)
     = Inr (Some \<lparr>labels = [''08:30'', ''09:05'', ''17:45'', ''23:59''],
               datasets = [\<lparr>ds_label = ''Temperature'', ds_data = [20, 43 / 2, 22, 18],
                            borderColor = ''#3498db'', tension = 3 / 10\<rparr>]\<rparr>, None)"
    by (simp add: fetch_historical_data_def connect_to_neon_def historical_try_def
        cursor_execute_def db_example_def DB_SENSOR_MAP_def history_query_def example_table_def
        mk_time_def DATE_def dt_key_def column_def float_of_reading_def strftime_HM_def
        pad2_def digit_def upper_char_def lower_char_def ascii_uppercase_def
        ascii_lowercase_def)
  have val_h: "fst (fetch_historical_data db_example (2024, 5, 1) ''humidity'' trace0)
     = Inr (Some \<lparr>labels = [''08:30'', ''09:05'', ''17:45'', ''23:59''],
               datasets = [\<lparr>ds_label = ''Humidity'', ds_data = [41, 40, 39, 44],
                            borderColor = ''#3498db'', tension = 3 / 10\<rparr>]\<rparr>, None)"
    by (simp add: fetch_historical_data_def connect_to_neon_def historical_try_def
        cursor_execute_def db_example_def DB_SENSOR_MAP_def history_query_def example_table_def
        mk_time_def DATE_def dt_key_def column_def float_of_reading_def strftime_HM_def
        pad2_def digit_def upper_char_def lower_char_def ascii_uppercase_def
        ascii_lowercase_def)
  have hyp_t: "(''temperature'' = ''temperature'' \<or> ''temperature'' = ''humidity'')
      \<and> connect_error db_example = None \<and> cursor_error db_example = None
      \<and> execute_error db_example = None
      \<and> (\<forall>r\<in>set (sensor_data db_example).
            (year (ts_iso r), month (ts_iso r), day (ts_iso r)) = (2024, 5, 1) \<longrightarrow>
              (\<exists>y. py_float db_example
                      (if ''temperature'' = ''temperature'' then temp_c r else humidity_pct r)
                    = Inr y))"
    by (simp add: db_example_def example_table_def mk_time_def float_of_reading_some)
  have hyp_h: "(''humidity'' = ''temperature'' \<or> ''humidity'' = ''humidity'')
      \<and> connect_error db_example = None \<and> cursor_error db_example = None
      \<and> execute_error db_example = None
      \<and> (\<forall>r\<in>set (sensor_data db_example).
            (year (ts_iso r), month (ts_iso r), day (ts_iso r)) = (2024, 5, 1) \<longrightarrow>
              (\<exists>y. py_float db_example
                      (if ''humidity'' = ''temperature'' then temp_c r else humidity_pct r)
                    = Inr y))"
    by (simp add: db_example_def example_table_def mk_time_def float_of_reading_some)
  note ex_t = history_rows_in_order
    [where env = db_example and d = "(2024, 5, 1)" and sensor = "''temperature''"
       and tr = trace0, THEN conjunct2, THEN mp, OF hyp_t]
  note ex_h = history_rows_in_order
    [where env = db_example and d = "(2024, 5, 1)" and sensor = "''humidity''"
       and tr = trace0, THEN conjunct2, THEN mp, OF hyp_h]
  note made = history_rows_in_order
    [where env = db_example and d = "(2024, 5, 1)" and sensor = "''humidity''"
       and tr = trace0, THEN conjunct1, THEN spec, THEN spec, THEN mp, OF val_h,
      THEN conjunct2, THEN conjunct2]
  from val_t val_h ex_t ex_h made show ?thesis by (intro conjI)
qed

end
